theory Spec2Isabelle
  imports Main
begin

section \<open>Documents, the store and responses\<close>

text \<open>
  The two Mongoose models of \<^verbatim>\<open>index.js\<close> are \<^verbatim>\<open>Users\<close> and \<^verbatim>\<open>Movies\<close>. Their schema
  file is not part of the sources, so the documents carry the fields that the routes
  read and write and that the data model of the specification lists. A field of a user
  is \<open>None\<close> when the stored value is null. A collection is a list in storage order:
  \<^verbatim>\<open>findOne\<close> and the \<^verbatim>\<open>findOneAnd...\<close> calls act on the first document that matches.

  Strings are byte strings in UTF-8.
\<close>

record subdoc =
  Name :: string
  details :: "(string \<times> string) list"

record movie =
  Title :: string
  Genre :: subdoc
  Director :: subdoc

record user =
  Username :: "string option"
  Password :: "string option"
  Email :: "string option"
  Birthday :: "string option"
  FavoriteMovies :: "string list"

record store =
  Users :: "user list"
  Movies :: "movie list"

text \<open>
  A JavaScript error value: an \<^verbatim>\<open>Error\<close> with its message, or the \<^verbatim>\<open>TypeError\<close> that
  reading the named property of \<^verbatim>\<open>null\<close> raises (its message is the engine's).
\<close>

datatype js_error =
    Thrown string
  | Null_read string

text \<open>
  What a handler writes: \<^verbatim>\<open>res.send(text)\<close>, \<^verbatim>\<open>res.send(prefix + err)\<close>, or
  \<^verbatim>\<open>res.json(value)\<close> for each kind of value the routes serialise. \<open>Json_user None\<close> is
  the JSON \<^verbatim>\<open>null\<close>. A validation error is the pair of its parameter and its message.
\<close>

datatype payload =
    Send string
  | Send_error string js_error
  | Json_errors "(string \<times> string) list"
  | Json_user "user option"
  | Json_users "user list"
  | Json_movie "movie option"
  | Json_movies "movie list"
  | Json_subdoc subdoc

record response =
  status :: nat
  content :: payload

text \<open>The update documents of the three \<^verbatim>\<open>findOneAndUpdate\<close> calls.\<close>

datatype update =
    Set_fields "string option" "string option" "string option" "string option"
  | Push_favorite string
  | Pull_favorite string

text \<open>The Mongoose calls that the handlers issue, with their arguments.\<close>

datatype query =
    Users_findOne "string option"
  | Users_create user
  | Users_find
  | Users_findOneAndUpdate string update
  | Users_findOneAndRemove string
  | Movies_find
  | Movies_findOne_Title string
  | Movies_findOne_Genre string
  | Movies_findOne_Director string

text \<open>
  A Mongoose call can fail (a cast or schema error, a driver error): \<open>fault q\<close> is the
  error with which the call \<open>q\<close> is rejected, or \<open>None\<close> when it runs. A rejected call
  leaves the store as it was.
\<close>

type_synonym faults = "query \<Rightarrow> js_error option"

definition no_fault :: faults where
  "no_fault q = None"

text \<open>
  The result of one request: the response, the store afterwards, and the Mongoose calls
  that the route's handler issued, in order.
\<close>

record result =
  reply :: response
  after :: store
  issued :: "query list"

definition respond :: "nat \<Rightarrow> payload \<Rightarrow> store \<Rightarrow> query list \<Rightarrow> result" where
  "respond code p s qs = \<lparr>reply = \<lparr>status = code, content = p\<rparr>, after = s, issued = qs\<rparr>"

text \<open>
  The parsed request body gives the string value of each key that it has; \<open>None\<close> is
  \<^verbatim>\<open>undefined\<close>. The handlers read \<^verbatim>\<open>req.body\<close> and the route parameters.
\<close>

type_synonym body = "string \<rightharpoonup> string"

text \<open>
  The validation of \<^verbatim>\<open>POST /users\<close> looks a field up in every location of the request,
  each of them an object like the body.
\<close>

record request =
  body :: body
  cookies :: body
  headers :: body
  params :: body
  query :: body

text \<open>
  \<^verbatim>\<open>Users.hashPassword\<close> is defined with the schema, outside the sources, and is a
  parameter of the two handlers that call it: applied to \<^verbatim>\<open>req.body.Password\<close> it
  returns the hash (\<open>Inr\<close>) or throws (\<open>Inl\<close>).
\<close>

type_synonym hasher = "string option \<Rightarrow> js_error + string"

section \<open>Middleware\<close>

subsection \<open>CORS\<close>

definition allowedOrigins :: "string list" where
  "allowedOrigins = [''http://localhost:8080'', ''http://localhost:4200'', ''http://testsite.com'',
     ''http://localhost:1234'', ''https://at-myflix-app.netlify.app'', ''https://andrew0t.github.io'']"

text \<open>The right single quotation mark U+2019 of the message, in UTF-8.\<close>

definition rsquo :: string where
  "rsquo = [CHR 0xE2, CHR 0x80, CHR 0x99]"

text \<open>
  The \<^verbatim>\<open>origin\<close> callback. \<^verbatim>\<open>!origin\<close> holds for an absent header and for the empty
  string alike. \<open>Inl\<close> is \<^verbatim>\<open>callback(new Error(message), false)\<close>, \<open>Inr True\<close> is
  \<^verbatim>\<open>callback(null, true)\<close>.
\<close>

definition cors_origin :: "string option \<Rightarrow> js_error + bool" where
  "cors_origin origin =
     (case origin of
        None \<Rightarrow> Inr True
      | Some orig \<Rightarrow>
          if orig = [] then Inr True
          else if orig \<notin> set allowedOrigins then
            Inl (Thrown (''The CORS policy for this application doesn'' @ rsquo @
                         ''t allow access from origin '' @ orig))
          else Inr True)"

subsection \<open>The error handling middleware and the token gate\<close>

text \<open>
  An exception thrown synchronously by a handler reaches the error handling middleware
  registered last in \<^verbatim>\<open>index.js\<close>.
\<close>

definition error_handler :: "store \<Rightarrow> result" where
  "error_handler s = respond 500 (Send ''There was an error. Please try again.'') s []"

text \<open>
  \<^verbatim>\<open>passport.authenticate('jwt', { session: false })\<close> in front of a handler. The
  strategy is configured in \<^verbatim>\<open>passport.js\<close>, which is not part of the sources: its verdict
  on the request is the flag \<open>authenticated\<close>. A request that fails it never reaches the
  handler.
\<close>

definition passport_authenticate :: "bool \<Rightarrow> store \<Rightarrow> result \<Rightarrow> result" where
  "passport_authenticate authenticated s handler =
     (if authenticated then handler else respond 401 (Send ''Unauthorized'') s [])"

section \<open>Validation of a registration\<close>

text \<open>
  \<^verbatim>\<open>check(field, message)\<close> selects the field in the body, the cookies, the headers, the
  route parameters and the query string, in this order. Every location that has a value
  for the field gets that value validated; when none has, the field is validated once,
  and the validators read the missing value as the empty string.
\<close>

definition instances :: "request \<Rightarrow> string \<Rightarrow> string list" where
  "instances req k =
     (case List.map_filter (\<lambda>location. location k)
             [body req, cookies req, headers req, params req, query req] of
        [] \<Rightarrow> [[]]
      | v # vs \<Rightarrow> v # vs)"

text \<open>One validator of a chain: its message, once for every selected value that fails it.\<close>

definition check :: "request \<Rightarrow> string \<Rightarrow> string \<Rightarrow> (string \<Rightarrow> bool) \<Rightarrow> (string \<times> string) list" where
  "check req k message validator =
     map (\<lambda>v. (k, message)) (filter (\<lambda>v. \<not> validator v) (instances req k))"

text \<open>
  \<^verbatim>\<open>isLength({min: 5})\<close> counts characters, a surrogate pair as one: the code points of
  the string. In UTF-8 these are the bytes other than continuation bytes.
\<close>

definition continuation :: "char \<Rightarrow> bool" where
  "continuation c = (128 \<le> (of_char c :: nat) \<and> (of_char c :: nat) < 192)"

definition isLength :: "nat \<Rightarrow> string \<Rightarrow> bool" where
  "isLength least str = (least \<le> length (filter (\<lambda>c. \<not> continuation c) str))"

text \<open>\<^verbatim>\<open>isAlphanumeric()\<close> in its default locale: one or more of the letters and digits.\<close>

definition isAlphanumeric :: "string \<Rightarrow> bool" where
  "isAlphanumeric str =
     (str \<noteq> [] \<and>
      list_all (\<lambda>c. c \<in> set ''0123456789ABCDEFGHIJKLMNOPQRSTUVWXYZabcdefghijklmnopqrstuvwxyz'') str)"

text \<open>
  The four validators of \<^verbatim>\<open>POST /users\<close>, in their order. \<^verbatim>\<open>not().isEmpty()\<close> fails on
  the empty string. \<^verbatim>\<open>isEmail()\<close> is the validator library's predicate and is a
  parameter.
\<close>

definition validationResult :: "(string \<Rightarrow> bool) \<Rightarrow> request \<Rightarrow> (string \<times> string) list" where
  "validationResult isEmail req =
     check req ''Username'' ''Username is required'' (isLength 5) @
     check req ''Username'' ''Username contains non alphanumeric characters - not allowed.''
       isAlphanumeric @
     check req ''Password'' ''Password is required'' (\<lambda>v. v \<noteq> []) @
     check req ''Email'' ''Email does not appear to be valid'' isEmail"

section \<open>Collection operations\<close>

text \<open>
  \<^verbatim>\<open>findOneAndUpdate(filter, update, { new: true })\<close>: the first matching document is
  replaced by its update, which is also the value handed to the callback; without a match
  the value is null and nothing changes.
\<close>

fun findOneAndUpdate :: "('a \<Rightarrow> bool) \<Rightarrow> ('a \<Rightarrow> 'a) \<Rightarrow> 'a list \<Rightarrow> 'a option \<times> 'a list" where
  "findOneAndUpdate P f [] = (None, [])"
| "findOneAndUpdate P f (x # xs) =
     (if P x then (Some (f x), f x # xs)
      else (case findOneAndUpdate P f xs of (r, ys) \<Rightarrow> (r, x # ys)))"

text \<open>\<^verbatim>\<open>findOneAndRemove(filter)\<close>: the first matching document is removed and returned.\<close>

fun findOneAndRemove :: "('a \<Rightarrow> bool) \<Rightarrow> 'a list \<Rightarrow> 'a option \<times> 'a list" where
  "findOneAndRemove P [] = (None, [])"
| "findOneAndRemove P (x # xs) =
     (if P x then (Some x, xs)
      else (case findOneAndRemove P xs of (r, ys) \<Rightarrow> (r, x # ys)))"

text \<open>
  Modelled from the spec: the update operation of the data access layer (section 4.3),
  whose schema file \<^verbatim>\<open>models.js\<close> is not among the sources. The four fields of the
  \<^verbatim>\<open>$set\<close> document overwrite the stored ones; a value that the request body does not have
  is stored as null.
\<close>

definition set_fields ::
  "string option \<Rightarrow> string option \<Rightarrow> string option \<Rightarrow> string option \<Rightarrow> user \<Rightarrow> user" where
  "set_fields un pw em bd u = u\<lparr>Username := un, Password := pw, Email := em, Birthday := bd\<rparr>"

text \<open>
  \<^verbatim>\<open>$push\<close> appends the value to the array; \<^verbatim>\<open>$pull\<close> removes every element equal to
  it.
\<close>

fun apply_update :: "update \<Rightarrow> user \<Rightarrow> user" where
  "apply_update (Set_fields un pw em bd) u = set_fields un pw em bd u"
| "apply_update (Push_favorite m) u = u\<lparr>FavoriteMovies := FavoriteMovies u @ [m]\<rparr>"
| "apply_update (Pull_favorite m) u =
     u\<lparr>FavoriteMovies := filter (\<lambda>x. x \<noteq> m) (FavoriteMovies u)\<rparr>"

text \<open>String concatenation with a value that may be \<^verbatim>\<open>undefined\<close>.\<close>

definition js_string :: "string option \<Rightarrow> string" where
  "js_string v = (case v of None \<Rightarrow> ''undefined'' | Some t \<Rightarrow> t)"

section \<open>Routes\<close>

subsection \<open>POST /users\<close>

definition createUser ::
  "hasher \<Rightarrow> (string \<Rightarrow> bool) \<Rightarrow> faults \<Rightarrow> request \<Rightarrow> store \<Rightarrow> result" where
  "createUser hashPassword isEmail fault req s =
     (let errors = validationResult isEmail req in
      if errors \<noteq> [] then respond 422 (Json_errors errors) s []
      else
        case hashPassword (body req ''Password'') of
          Inl thrown \<Rightarrow> error_handler s
        | Inr hashedPassword \<Rightarrow>
            let q = Users_findOne (body req ''Username'') in
            case fault q of
              Some error \<Rightarrow> respond 500 (Send_error ''Error: '' error) s [q]
            | None \<Rightarrow>
                (case find (\<lambda>u. Username u = body req ''Username'') (Users s) of
                   Some found \<Rightarrow>
                     respond 400
                       (Send (js_string (body req ''Username'') @ '' already exists'')) s [q]
                 | None \<Rightarrow>
                     let doc = \<lparr>Username = body req ''Username'',
                                Password = Some hashedPassword,
                                Email = body req ''Email'', Birthday = body req ''Birthday'',
                                FavoriteMovies = []\<rparr>;
                         c = Users_create doc
                     in case fault c of
                          Some error \<Rightarrow> respond 500 (Send_error ''Error: '' error) s [q, c]
                        | None \<Rightarrow>
                            respond 201 (Json_user (Some doc))
                              (s\<lparr>Users := Users s @ [doc]\<rparr>) [q, c]))"

subsection \<open>GET /users and GET /movies\<close>

definition getUsers :: "faults \<Rightarrow> bool \<Rightarrow> store \<Rightarrow> result" where
  "getUsers fault authenticated s =
     passport_authenticate authenticated s
       (case fault Users_find of
          Some err \<Rightarrow> respond 500 (Send_error ''error:'' err) s [Users_find]
        | None \<Rightarrow> respond 201 (Json_users (Users s)) s [Users_find])"

definition getMovies :: "faults \<Rightarrow> bool \<Rightarrow> store \<Rightarrow> result" where
  "getMovies fault authenticated s =
     passport_authenticate authenticated s
       (case fault Movies_find of
          Some err \<Rightarrow> respond 500 (Send_error ''Error: '' err) s [Movies_find]
        | None \<Rightarrow> respond 201 (Json_movies (Movies s)) s [Movies_find])"

subsection \<open>GET /users/:Username and GET /movies/:Title\<close>

definition getUser :: "faults \<Rightarrow> bool \<Rightarrow> string \<Rightarrow> store \<Rightarrow> result" where
  "getUser fault authenticated username s =
     passport_authenticate authenticated s
       (let q = Users_findOne (Some username) in
        case fault q of
          Some err \<Rightarrow> respond 500 (Send_error ''Error: '' err) s [q]
        | None \<Rightarrow>
            respond 200 (Json_user (find (\<lambda>u. Username u = Some username) (Users s))) s [q])"

definition getMovie :: "faults \<Rightarrow> bool \<Rightarrow> string \<Rightarrow> store \<Rightarrow> result" where
  "getMovie fault authenticated title s =
     passport_authenticate authenticated s
       (let q = Movies_findOne_Title title in
        case fault q of
          Some err \<Rightarrow> respond 500 (Send_error ''Error: '' err) s [q]
        | None \<Rightarrow> respond 200 (Json_movie (find (\<lambda>m. Title m = title) (Movies s))) s [q])"

subsection \<open>GET /movies/genres/:Name and GET /movies/directors/:Name\<close>

text \<open>
  \<^verbatim>\<open>movie.Genre\<close> is read inside the \<^verbatim>\<open>then\<close> callback: when \<^verbatim>\<open>findOne\<close> resolves to
  null the read throws, the promise rejects, and the \<^verbatim>\<open>catch\<close> callback answers.
\<close>

definition getGenre :: "faults \<Rightarrow> bool \<Rightarrow> string \<Rightarrow> store \<Rightarrow> result" where
  "getGenre fault authenticated name s =
     passport_authenticate authenticated s
       (let q = Movies_findOne_Genre name in
        case fault q of
          Some err \<Rightarrow> respond 500 (Send_error ''Error: '' err) s [q]
        | None \<Rightarrow>
            (case find (\<lambda>m. Name (Genre m) = name) (Movies s) of
               None \<Rightarrow> respond 500 (Send_error ''Error: '' (Null_read ''Genre'')) s [q]
             | Some m \<Rightarrow> respond 200 (Json_subdoc (Genre m)) s [q]))"

definition getDirector :: "faults \<Rightarrow> bool \<Rightarrow> string \<Rightarrow> store \<Rightarrow> result" where
  "getDirector fault authenticated name s =
     passport_authenticate authenticated s
       (let q = Movies_findOne_Director name in
        case fault q of
          Some err \<Rightarrow> respond 500 (Send_error ''Error: '' err) s [q]
        | None \<Rightarrow>
            (case find (\<lambda>m. Name (Director m) = name) (Movies s) of
               None \<Rightarrow> respond 500 (Send_error ''Error: '' (Null_read ''Director'')) s [q]
             | Some m \<Rightarrow> respond 200 (Json_subdoc (Director m)) s [q]))"

subsection \<open>PUT /users/:Username\<close>

definition updateUser :: "hasher \<Rightarrow> faults \<Rightarrow> bool \<Rightarrow> string \<Rightarrow> body \<Rightarrow> store \<Rightarrow> result" where
  "updateUser hashPassword fault authenticated username b s =
     passport_authenticate authenticated s
       (case hashPassword (b ''Password'') of
          Inl thrown \<Rightarrow> error_handler s
        | Inr hashedPassword \<Rightarrow>
            let q = Users_findOneAndUpdate username
                      (Set_fields (b ''Username'') (Some hashedPassword) (b ''Email'')
                         (b ''Birthday''))
            in case fault q of
                 Some err \<Rightarrow> respond 500 (Send_error ''Error:'' err) s [q]
               | None \<Rightarrow>
                   (case findOneAndUpdate (\<lambda>u. Username u = Some username)
                           (apply_update (Set_fields (b ''Username'') (Some hashedPassword)
                              (b ''Email'') (b ''Birthday''))) (Users s) of
                      (updatedUser, users') \<Rightarrow>
                        respond 200 (Json_user updatedUser) (s\<lparr>Users := users'\<rparr>) [q]))"

subsection \<open>POST and DELETE /users/:Username/movies/:MovieID\<close>

definition addFavoriteMovie :: "faults \<Rightarrow> bool \<Rightarrow> string \<Rightarrow> string \<Rightarrow> store \<Rightarrow> result" where
  "addFavoriteMovie fault authenticated username movieID s =
     passport_authenticate authenticated s
       (let q = Users_findOneAndUpdate username (Push_favorite movieID) in
        case fault q of
          Some err \<Rightarrow> respond 500 (Send_error ''Error:'' err) s [q]
        | None \<Rightarrow>
            (case findOneAndUpdate (\<lambda>u. Username u = Some username)
                    (apply_update (Push_favorite movieID)) (Users s) of
               (updatedUser, users') \<Rightarrow>
                 respond 200 (Json_user updatedUser) (s\<lparr>Users := users'\<rparr>) [q]))"

definition deleteFavoriteMovie :: "faults \<Rightarrow> bool \<Rightarrow> string \<Rightarrow> string \<Rightarrow> store \<Rightarrow> result" where
  "deleteFavoriteMovie fault authenticated username movieID s =
     passport_authenticate authenticated s
       (let q = Users_findOneAndUpdate username (Pull_favorite movieID) in
        case fault q of
          Some err \<Rightarrow> respond 500 (Send_error ''Error:'' err) s [q]
        | None \<Rightarrow>
            (case findOneAndUpdate (\<lambda>u. Username u = Some username)
                    (apply_update (Pull_favorite movieID)) (Users s) of
               (updatedUser, users') \<Rightarrow>
                 respond 200 (Json_user updatedUser) (s\<lparr>Users := users'\<rparr>) [q]))"

subsection \<open>DELETE /users/:Username\<close>

definition deleteUser :: "faults \<Rightarrow> bool \<Rightarrow> string \<Rightarrow> store \<Rightarrow> result" where
  "deleteUser fault authenticated username s =
     passport_authenticate authenticated s
       (let q = Users_findOneAndRemove username in
        case fault q of
          Some err \<Rightarrow> respond 500 (Send_error ''Error: '' err) s [q]
        | None \<Rightarrow>
            (case findOneAndRemove (\<lambda>u. Username u = Some username) (Users s) of
               (None, users') \<Rightarrow>
                 respond 400 (Send (username @ '' was not found.'')) (s\<lparr>Users := users'\<rparr>) [q]
             | (Some removed, users') \<Rightarrow>
                 respond 200 (Send (username @ '' was deleted.'')) (s\<lparr>Users := users'\<rparr>) [q]))"

section \<open>Facts about the collection operations\<close>

lemma find_holds: "find P xs = Some x \<Longrightarrow> P x"
  by (induction xs) (auto split: if_splits)

lemma find_snoc:
  "find P xs = None \<Longrightarrow> P x \<Longrightarrow> find P (xs @ [x]) = Some x"
  by (induction xs) (auto split: if_splits)

lemma findOneAndUpdate_miss:
  "find P xs = None \<Longrightarrow> findOneAndUpdate P f xs = (None, xs)"
  by (induction xs) (auto split: if_splits)

lemma findOneAndUpdate_hit:
  "find P xs = Some x \<Longrightarrow>
   \<exists>pre post. xs = pre @ x # post \<and> find P pre = None \<and>
     findOneAndUpdate P f xs = (Some (f x), pre @ f x # post)"
proof (induction xs)
  case Nil
  then show ?case by simp
next
  case (Cons y ys)
  show ?case
  proof (cases "P y")
    case True
    with Cons.prems have "y = x" by simp
    with True have "y # ys = [] @ x # ys \<and> find P [] = None \<and>
        findOneAndUpdate P f (y # ys) = (Some (f x), [] @ f x # ys)" by simp
    then show ?thesis by blast
  next
    case False
    with Cons.prems have "find P ys = Some x" by simp
    from Cons.IH [OF this] obtain pre post where
      "ys = pre @ x # post" "find P pre = None"
      "findOneAndUpdate P f ys = (Some (f x), pre @ f x # post)" by blast
    with False have "y # ys = (y # pre) @ x # post \<and> find P (y # pre) = None \<and>
        findOneAndUpdate P f (y # ys) = (Some (f x), (y # pre) @ f x # post)" by simp
    then show ?thesis by blast
  qed
qed

lemma findOneAndUpdate_twice:
  "(\<And>x. P x \<Longrightarrow> P (f x)) \<Longrightarrow>
   snd (findOneAndUpdate P g (snd (findOneAndUpdate P f xs))) =
   snd (findOneAndUpdate P (\<lambda>x. g (f x)) xs)"
  by (induction xs) (auto split: prod.splits)

lemma findOneAndUpdate_same:
  "(\<And>x. find P xs = Some x \<Longrightarrow> f x = x) \<Longrightarrow> snd (findOneAndUpdate P f xs) = xs"
  by (induction xs) (auto split: prod.splits)

lemma findOneAndRemove_miss:
  "find P xs = None \<Longrightarrow> findOneAndRemove P xs = (None, xs)"
  by (induction xs) (auto split: if_splits)

lemma findOneAndRemove_hit:
  "find P xs = Some x \<Longrightarrow> findOneAndRemove P xs = (Some x, remove1 x xs)"
proof (induction xs)
  case Nil
  then show ?case by simp
next
  case (Cons y ys)
  show ?case
  proof (cases "P y")
    case True
    with Cons.prems show ?thesis by simp
  next
    case False
    with Cons.prems have hit: "find P ys = Some x" by simp
    then have "P x" by (rule find_holds)
    with False have "x \<noteq> y" by blast
    with False Cons.IH [OF hit] show ?thesis by simp
  qed
qed

lemma pull_after_push:
  "apply_update (Pull_favorite m) (apply_update (Push_favorite m) u) =
   apply_update (Pull_favorite m) u"
  by simp

lemma pull_absent:
  "m \<notin> set (FavoriteMovies u) \<Longrightarrow> apply_update (Pull_favorite m) u = u"
proof -
  assume "m \<notin> set (FavoriteMovies u)"
  then have "filter (\<lambda>x. x \<noteq> m) (FavoriteMovies u) = FavoriteMovies u"
    by (auto simp: filter_id_conv)
  then show ?thesis by simp
qed

section \<open>Facts about the validation\<close>

lemma check_empty:
  "check req k message validator = [] \<longleftrightarrow> list_all validator (instances req k)"
  by (simp add: check_def filter_empty_conv list_all_iff)

lemma validationResult_empty:
  "validationResult isEmail req = [] \<longleftrightarrow>
     list_all (isLength 5) (instances req ''Username'') \<and>
     list_all isAlphanumeric (instances req ''Username'') \<and>
     list_all (\<lambda>v. v \<noteq> []) (instances req ''Password'') \<and>
     list_all isEmail (instances req ''Email'')"
  by (simp add: validationResult_def check_empty)

lemma createUser_past_validation:
  "validationResult isEmail req = [] \<Longrightarrow>
   status (reply (createUser hashPassword isEmail fault req s)) \<noteq> 422"
  by (simp add: createUser_def Let_def respond_def error_handler_def
      split: sum.splits option.splits)

section \<open>Registration\<close>

text \<open>
  C2: two registrations in sequence with the same Username in the body, both with valid
  input: every value that the validation selects passes its validators. The Username is
  not taken before the first, the hash succeeds and the Mongoose calls run. The first is
  answered with 201 and the created user, which is appended to the collection. The
  second is answered with 400 and the message that the Username already exists; it
  leaves the store as the first left it and issues the lookup only, no \<^verbatim>\<open>create\<close>.
\<close>

theorem register_same_Username_twice:
  assumes name1: "body r1 ''Username'' = Some u" and name2: "body r2 ''Username'' = Some u"
    and valid1: "\<forall>v\<in>set (instances r1 ''Username''). isLength 5 v \<and> isAlphanumeric v"
      "\<forall>v\<in>set (instances r1 ''Password''). v \<noteq> []"
      "\<forall>v\<in>set (instances r1 ''Email''). isEmail v"
    and valid2: "\<forall>v\<in>set (instances r2 ''Username''). isLength 5 v \<and> isAlphanumeric v"
      "\<forall>v\<in>set (instances r2 ''Password''). v \<noteq> []"
      "\<forall>v\<in>set (instances r2 ''Email''). isEmail v"
    and hash1: "hashPassword (body r1 ''Password'') = Inr h1"
    and hash2: "hashPassword (body r2 ''Password'') = Inr h2"
    and fresh: "find (\<lambda>x. Username x = Some u) (Users s) = None"
    and ran1: "fault1 (Users_findOne (Some u)) = None"
      "fault1 (Users_create \<lparr>Username = Some u, Password = Some h1,
         Email = body r1 ''Email'', Birthday = body r1 ''Birthday'',
         FavoriteMovies = []\<rparr>) = None"
    and ran2: "fault2 (Users_findOne (Some u)) = None"
  shows "reply (createUser hashPassword isEmail fault1 r1 s) =
           \<lparr>status = 201, content = Json_user (Some \<lparr>Username = Some u, Password = Some h1,
              Email = body r1 ''Email'', Birthday = body r1 ''Birthday'',
              FavoriteMovies = []\<rparr>)\<rparr> \<and>
         after (createUser hashPassword isEmail fault1 r1 s) =
           s\<lparr>Users := Users s @ [\<lparr>Username = Some u, Password = Some h1,
              Email = body r1 ''Email'', Birthday = body r1 ''Birthday'',
              FavoriteMovies = []\<rparr>]\<rparr> \<and>
         reply (createUser hashPassword isEmail fault2 r2
                  (after (createUser hashPassword isEmail fault1 r1 s))) =
           \<lparr>status = 400, content = Send (u @ '' already exists'')\<rparr> \<and>
         after (createUser hashPassword isEmail fault2 r2
                  (after (createUser hashPassword isEmail fault1 r1 s))) =
           after (createUser hashPassword isEmail fault1 r1 s) \<and>
         issued (createUser hashPassword isEmail fault2 r2
                  (after (createUser hashPassword isEmail fault1 r1 s))) =
           [Users_findOne (Some u)]"
proof -
  let ?doc = "\<lparr>Username = Some u, Password = Some h1, Email = body r1 ''Email'',
                Birthday = body r1 ''Birthday'', FavoriteMovies = []\<rparr>"
  have passes1: "validationResult isEmail r1 = []"
    using valid1 by (simp add: validationResult_empty list_all_iff)
  have passes2: "validationResult isEmail r2 = []"
    using valid2 by (simp add: validationResult_empty list_all_iff)
  have first: "createUser hashPassword isEmail fault1 r1 s =
      respond 201 (Json_user (Some ?doc)) (s\<lparr>Users := Users s @ [?doc]\<rparr>)
        [Users_findOne (Some u), Users_create ?doc]"
    using passes1 name1 hash1 fresh ran1
    by (simp add: createUser_def Let_def)
  have taken: "find (\<lambda>x. Username x = Some u) (Users s @ [?doc]) = Some ?doc"
    using fresh by (rule find_snoc) simp
  have second: "createUser hashPassword isEmail fault2 r2 (s\<lparr>Users := Users s @ [?doc]\<rparr>) =
      respond 400 (Send (u @ '' already exists'')) (s\<lparr>Users := Users s @ [?doc]\<rparr>)
        [Users_findOne (Some u)]"
    using passes2 name2 hash2 taken ran2
    by (simp add: createUser_def js_string_def Let_def)
  show ?thesis
    by (simp add: first second respond_def)
qed

text \<open>C2 at two registrations of alice, into an empty store.\<close>

theorem register_same_Username_twice_witness:
  "instances \<lparr>body = [''Username'' \<mapsto> ''alice'', ''Password'' \<mapsto> ''pw1'',
        ''Email'' \<mapsto> ''a@b.com''], cookies = Map.empty, headers = Map.empty,
        params = Map.empty, query = Map.empty\<rparr> ''Username'' = [''alice''] \<and>
   isLength 5 ''alice'' \<and> isAlphanumeric ''alice'' \<and>
   find (\<lambda>x. Username x = Some ''alice'') (Users \<lparr>Users = [], Movies = []\<rparr>) = None \<and>
   reply (createUser (\<lambda>p. case p of None \<Rightarrow> Inl (Thrown ''no data'') | Some t \<Rightarrow> Inr (CHR ''#'' # t))
            (\<lambda>e. CHR ''@'' \<in> set e) no_fault
            \<lparr>body = [''Username'' \<mapsto> ''alice'', ''Password'' \<mapsto> ''pw1'',
               ''Email'' \<mapsto> ''a@b.com''], cookies = Map.empty, headers = Map.empty,
             params = Map.empty, query = Map.empty\<rparr>
            \<lparr>Users = [], Movies = []\<rparr>) =
     \<lparr>status = 201, content = Json_user (Some \<lparr>Username = Some ''alice'',
        Password = Some ''#pw1'', Email = Some ''a@b.com'', Birthday = None,
        FavoriteMovies = []\<rparr>)\<rparr> \<and>
   reply (createUser (\<lambda>p. case p of None \<Rightarrow> Inl (Thrown ''no data'') | Some t \<Rightarrow> Inr (CHR ''#'' # t))
            (\<lambda>e. CHR ''@'' \<in> set e) no_fault
            \<lparr>body = [''Username'' \<mapsto> ''alice'', ''Password'' \<mapsto> ''pw2'',
               ''Email'' \<mapsto> ''c@d.org''], cookies = Map.empty, headers = Map.empty,
             params = Map.empty, query = Map.empty\<rparr>
            \<lparr>Users = [\<lparr>Username = Some ''alice'', Password = Some ''#pw1'',
               Email = Some ''a@b.com'', Birthday = None, FavoriteMovies = []\<rparr>],
             Movies = []\<rparr>) =
     \<lparr>status = 400, content = Send ''alice already exists''\<rparr> \<and>
   after (createUser (\<lambda>p. case p of None \<Rightarrow> Inl (Thrown ''no data'') | Some t \<Rightarrow> Inr (CHR ''#'' # t))
            (\<lambda>e. CHR ''@'' \<in> set e) no_fault
            \<lparr>body = [''Username'' \<mapsto> ''alice'', ''Password'' \<mapsto> ''pw2'',
               ''Email'' \<mapsto> ''c@d.org''], cookies = Map.empty, headers = Map.empty,
             params = Map.empty, query = Map.empty\<rparr>
            \<lparr>Users = [\<lparr>Username = Some ''alice'', Password = Some ''#pw1'',
               Email = Some ''a@b.com'', Birthday = None, FavoriteMovies = []\<rparr>],
             Movies = []\<rparr>) =
     \<lparr>Users = [\<lparr>Username = Some ''alice'', Password = Some ''#pw1'',
        Email = Some ''a@b.com'', Birthday = None, FavoriteMovies = []\<rparr>], Movies = []\<rparr>"
  using register_same_Username_twice
    [where ?r1.0 = "\<lparr>body = [''Username'' \<mapsto> ''alice'', ''Password'' \<mapsto> ''pw1'',
               ''Email'' \<mapsto> ''a@b.com''], cookies = Map.empty, headers = Map.empty,
             params = Map.empty, query = Map.empty\<rparr>"
       and ?r2.0 = "\<lparr>body = [''Username'' \<mapsto> ''alice'', ''Password'' \<mapsto> ''pw2'',
               ''Email'' \<mapsto> ''c@d.org''], cookies = Map.empty, headers = Map.empty,
             params = Map.empty, query = Map.empty\<rparr>"
       and u = "''alice''"
       and isEmail = "\<lambda>e. CHR ''@'' \<in> set e"
       and hashPassword = "\<lambda>p. case p of None \<Rightarrow> Inl (Thrown ''no data'') | Some t \<Rightarrow> Inr (CHR ''#'' # t)"
       and ?h1.0 = "''#pw1''" and ?h2.0 = "''#pw2''"
       and s = "\<lparr>Users = [], Movies = []\<rparr>"
       and ?fault1.0 = no_fault and ?fault2.0 = no_fault]
  by (auto simp: no_fault_def isAlphanumeric_def isLength_def continuation_def
      instances_def List.map_filter_simps)




section \<open>Reading\<close>

text \<open>
  C7: a \<^verbatim>\<open>GET /users\<close> request and a \<^verbatim>\<open>GET /movies\<close> request that pass the token gate
  and whose \<^verbatim>\<open>find\<close> runs are answered with status 201 and all the users, respectively
  all the movies, of the collection.
\<close>

theorem list_routes_answer_201:
  "(fault Users_find = None \<longrightarrow>
      reply (getUsers fault True s) = \<lparr>status = 201, content = Json_users (Users s)\<rparr>) \<and>
   (fault Movies_find = None \<longrightarrow>
      reply (getMovies fault True s) = \<lparr>status = 201, content = Json_movies (Movies s)\<rparr>)"
  by (simp add: getUsers_def getMovies_def passport_authenticate_def respond_def)

text \<open>C7 at a store with one user and no movie.\<close>

theorem list_routes_answer_201_witness:
  "no_fault Users_find = None \<and> no_fault Movies_find = None \<and>
   reply (getUsers no_fault True
     \<lparr>Users = [\<lparr>Username = Some ''alice'', Password = Some ''h'',
        Email = Some ''a@b.com'', Birthday = None, FavoriteMovies = []\<rparr>], Movies = []\<rparr>) =
     \<lparr>status = 201, content = Json_users [\<lparr>Username = Some ''alice'', Password = Some ''h'',
        Email = Some ''a@b.com'', Birthday = None, FavoriteMovies = []\<rparr>]\<rparr> \<and>
   reply (getMovies no_fault True
     \<lparr>Users = [\<lparr>Username = Some ''alice'', Password = Some ''h'',
        Email = Some ''a@b.com'', Birthday = None, FavoriteMovies = []\<rparr>], Movies = []\<rparr>) =
     \<lparr>status = 201, content = Json_movies []\<rparr>"
  using list_routes_answer_201 [of no_fault
     "\<lparr>Users = [\<lparr>Username = Some ''alice'', Password = Some ''h'',
        Email = Some ''a@b.com'', Birthday = None, FavoriteMovies = []\<rparr>], Movies = []\<rparr>"]
  by (simp add: no_fault_def)

text \<open>
  C6: \<^verbatim>\<open>GET /movies/genres/:Name\<close>, past the token gate and with a \<^verbatim>\<open>findOne\<close> that
  runs. When no movie has that genre name the answer is the 500 of the \<^verbatim>\<open>catch\<close>
  callback, not a 200; when one has, the answer is 200 with the Genre of the first such
  movie.
\<close>

theorem genre_of_first_match_or_error:
  assumes ran: "fault (Movies_findOne_Genre name) = None"
  shows "(find (\<lambda>m. Name (Genre m) = name) (Movies s) = None \<longrightarrow>
            reply (getGenre fault True name s) =
              \<lparr>status = 500, content = Send_error ''Error: '' (Null_read ''Genre'')\<rparr>) \<and>
         (\<forall>m. find (\<lambda>m. Name (Genre m) = name) (Movies s) = Some m \<longrightarrow>
            reply (getGenre fault True name s) =
              \<lparr>status = 200, content = Json_subdoc (Genre m)\<rparr>)"
  using ran
  by (simp add: getGenre_def passport_authenticate_def respond_def)

text \<open>C6 at a store whose only movie is a comedy, asked for Drama and for Comedy.\<close>

theorem genre_of_first_match_or_error_witness:
  "no_fault (Movies_findOne_Genre ''Drama'') = None \<and>
   no_fault (Movies_findOne_Genre ''Comedy'') = None \<and>
   reply (getGenre no_fault True ''Drama''
     \<lparr>Users = [], Movies = [\<lparr>Title = ''Airplane'',
        Genre = \<lparr>Name = ''Comedy'', details = [(''Description'', ''Funny'')]\<rparr>,
        Director = \<lparr>Name = ''Jim Abrahams'', details = []\<rparr>\<rparr>]\<rparr>) =
     \<lparr>status = 500, content = Send_error ''Error: '' (Null_read ''Genre'')\<rparr> \<and>
   reply (getGenre no_fault True ''Comedy''
     \<lparr>Users = [], Movies = [\<lparr>Title = ''Airplane'',
        Genre = \<lparr>Name = ''Comedy'', details = [(''Description'', ''Funny'')]\<rparr>,
        Director = \<lparr>Name = ''Jim Abrahams'', details = []\<rparr>\<rparr>]\<rparr>) =
     \<lparr>status = 200, content = Json_subdoc
        \<lparr>Name = ''Comedy'', details = [(''Description'', ''Funny'')]\<rparr>\<rparr>"
  using genre_of_first_match_or_error [of no_fault "''Drama''"
     "\<lparr>Users = [], Movies = [\<lparr>Title = ''Airplane'',
        Genre = \<lparr>Name = ''Comedy'', details = [(''Description'', ''Funny'')]\<rparr>,
        Director = \<lparr>Name = ''Jim Abrahams'', details = []\<rparr>\<rparr>]\<rparr>"]
    genre_of_first_match_or_error [of no_fault "''Comedy''"
     "\<lparr>Users = [], Movies = [\<lparr>Title = ''Airplane'',
        Genre = \<lparr>Name = ''Comedy'', details = [(''Description'', ''Funny'')]\<rparr>,
        Director = \<lparr>Name = ''Jim Abrahams'', details = []\<rparr>\<rparr>]\<rparr>"]
  by (simp add: no_fault_def)

section \<open>Updating a user\<close>

text \<open>
  C3: \<^verbatim>\<open>PUT /users/:Username\<close>, past the token gate, with a hash that succeeds and an
  update that runs, for a Username that is stored. The first user of that name gets the
  Username, Email and Birthday of the request body and the hashed Password, whatever the
  body has there: a key that the body lacks is stored as null. The favorites and the
  other users stay, and the answer is 200 with the updated user.
\<close>

theorem update_overwrites_fields:
  assumes hashed: "hashPassword (b ''Password'') = Inr h"
    and found: "find (\<lambda>x. Username x = Some username) (Users s) = Some u"
    and ran: "fault (Users_findOneAndUpdate username
                (Set_fields (b ''Username'') (Some h) (b ''Email'') (b ''Birthday''))) = None"
  shows "\<exists>pre post.
           Users s = pre @ u # post \<and> find (\<lambda>x. Username x = Some username) pre = None \<and>
           Users (after (updateUser hashPassword fault True username b s)) =
             pre @ \<lparr>Username = b ''Username'', Password = Some h, Email = b ''Email'',
                     Birthday = b ''Birthday'', FavoriteMovies = FavoriteMovies u\<rparr> # post \<and>
           reply (updateUser hashPassword fault True username b s) =
             \<lparr>status = 200, content = Json_user (Some
                \<lparr>Username = b ''Username'', Password = Some h, Email = b ''Email'',
                 Birthday = b ''Birthday'', FavoriteMovies = FavoriteMovies u\<rparr>)\<rparr>"
proof -
  let ?f = "apply_update (Set_fields (b ''Username'') (Some h) (b ''Email'') (b ''Birthday''))"
  have new: "?f u = \<lparr>Username = b ''Username'', Password = Some h, Email = b ''Email'',
      Birthday = b ''Birthday'', FavoriteMovies = FavoriteMovies u\<rparr>"
    by (simp add: set_fields_def)
  from findOneAndUpdate_hit [OF found, of ?f] obtain pre post where
    split: "Users s = pre @ u # post" "find (\<lambda>x. Username x = Some username) pre = None"
    and upd: "findOneAndUpdate (\<lambda>x. Username x = Some username) ?f (Users s) =
      (Some (?f u), pre @ ?f u # post)"
    by blast
  have "updateUser hashPassword fault True username b s =
      respond 200 (Json_user (Some (?f u))) (s\<lparr>Users := pre @ ?f u # post\<rparr>)
        [Users_findOneAndUpdate username
           (Set_fields (b ''Username'') (Some h) (b ''Email'') (b ''Birthday''))]"
    using hashed ran upd
    by (simp add: updateUser_def passport_authenticate_def)
  then have "Users (after (updateUser hashPassword fault True username b s)) = pre @ ?f u # post"
    and "reply (updateUser hashPassword fault True username b s) =
      \<lparr>status = 200, content = Json_user (Some (?f u))\<rparr>"
    by (simp_all add: respond_def)
  with split show ?thesis
    unfolding new by blast
qed

text \<open>C3 at a body without Email and Birthday: both are null afterwards.\<close>

theorem update_overwrites_fields_witness:
  "find (\<lambda>x. Username x = Some ''alice'')
     (Users \<lparr>Users = [\<lparr>Username = Some ''alice'', Password = Some ''h'',
        Email = Some ''a@b.com'', Birthday = Some ''1990-01-01'', FavoriteMovies = [''m1'']\<rparr>],
        Movies = []\<rparr>) =
     Some \<lparr>Username = Some ''alice'', Password = Some ''h'',
        Email = Some ''a@b.com'', Birthday = Some ''1990-01-01'', FavoriteMovies = [''m1'']\<rparr> \<and>
   Users (after (updateUser
       (\<lambda>p. case p of None \<Rightarrow> Inl (Thrown ''no data'') | Some t \<Rightarrow> Inr (CHR ''#'' # t))
       no_fault True ''alice'' [''Username'' \<mapsto> ''alice'', ''Password'' \<mapsto> ''pw2'']
       \<lparr>Users = [\<lparr>Username = Some ''alice'', Password = Some ''h'',
          Email = Some ''a@b.com'', Birthday = Some ''1990-01-01'', FavoriteMovies = [''m1'']\<rparr>],
        Movies = []\<rparr>)) =
     [\<lparr>Username = Some ''alice'', Password = Some ''#pw2'', Email = None, Birthday = None,
       FavoriteMovies = [''m1'']\<rparr>]"
  using update_overwrites_fields
    [where hashPassword = "\<lambda>p. case p of None \<Rightarrow> Inl (Thrown ''no data'') | Some t \<Rightarrow> Inr (CHR ''#'' # t)"
       and b = "[''Username'' \<mapsto> ''alice'', ''Password'' \<mapsto> ''pw2'']"
       and h = "''#pw2''" and username = "''alice''" and fault = no_fault
       and u = "\<lparr>Username = Some ''alice'', Password = Some ''h'',
          Email = Some ''a@b.com'', Birthday = Some ''1990-01-01'', FavoriteMovies = [''m1'']\<rparr>"
       and s = "\<lparr>Users = [\<lparr>Username = Some ''alice'', Password = Some ''h'',
          Email = Some ''a@b.com'', Birthday = Some ''1990-01-01'', FavoriteMovies = [''m1'']\<rparr>],
        Movies = []\<rparr>"]
  by (auto simp: no_fault_def Cons_eq_append_conv)

section \<open>Favorites\<close>

text \<open>
  C1, as stated: adding a movie id to the favorites of a user and then removing the same
  id restores the favorites. For a user who already has the id among the favorites the
  removal also takes the earlier occurrence.
\<close>

theorem push_then_pull_favorite_counterexample:
  "map FavoriteMovies (Users (after (deleteFavoriteMovie no_fault True ''alice'' ''m1''
     (after (addFavoriteMovie no_fault True ''alice'' ''m1''
       \<lparr>Users = [\<lparr>Username = Some ''alice'', Password = Some ''h'', Email = Some ''a@b.com'',
                   Birthday = None, FavoriteMovies = [''m1'']\<rparr>], Movies = []\<rparr>))))) \<noteq>
   map FavoriteMovies (Users
       \<lparr>Users = [\<lparr>Username = Some ''alice'', Password = Some ''h'', Email = Some ''a@b.com'',
                   Birthday = None, FavoriteMovies = [''m1'']\<rparr>], Movies = []\<rparr>)"
  by (simp add: addFavoriteMovie_def deleteFavoriteMovie_def passport_authenticate_def
      respond_def no_fault_def)

text \<open>
  C1, amended: with both requests past the token gate and both updates running, adding a
  movie id and then removing it leaves the store as it was, except that the favorites of
  the first user of that name lose every occurrence of the id. When the id was not among
  the favorites of that user, the store is restored.
\<close>

theorem push_then_pull_favorite:
  assumes push_ran: "fault1 (Users_findOneAndUpdate username (Push_favorite m)) = None"
    and pull_ran: "fault2 (Users_findOneAndUpdate username (Pull_favorite m)) = None"
  shows "after (deleteFavoriteMovie fault2 True username m
                  (after (addFavoriteMovie fault1 True username m s))) =
           s\<lparr>Users := snd (findOneAndUpdate (\<lambda>u. Username u = Some username)
                             (apply_update (Pull_favorite m)) (Users s))\<rparr> \<and>
         ((\<forall>u. find (\<lambda>u. Username u = Some username) (Users s) = Some u \<longrightarrow>
                m \<notin> set (FavoriteMovies u)) \<longrightarrow>
          after (deleteFavoriteMovie fault2 True username m
                   (after (addFavoriteMovie fault1 True username m s))) = s)"
proof -
  let ?P = "\<lambda>u. Username u = Some username"
  let ?push = "apply_update (Push_favorite m)"
  let ?pull = "apply_update (Pull_favorite m)"
  have pushed: "after (addFavoriteMovie fault1 True username m s) =
      s\<lparr>Users := snd (findOneAndUpdate ?P ?push (Users s))\<rparr>"
    using push_ran
    by (simp add: addFavoriteMovie_def passport_authenticate_def respond_def
        split: prod.splits)
  have pulled: "after (deleteFavoriteMovie fault2 True username m t) =
      t\<lparr>Users := snd (findOneAndUpdate ?P ?pull (Users t))\<rparr>" for t
    using pull_ran
    by (simp add: deleteFavoriteMovie_def passport_authenticate_def respond_def
        split: prod.splits)
  have "snd (findOneAndUpdate ?P ?pull (snd (findOneAndUpdate ?P ?push (Users s)))) =
      snd (findOneAndUpdate ?P (\<lambda>x. ?pull (?push x)) (Users s))"
    by (rule findOneAndUpdate_twice) simp
  then have both: "snd (findOneAndUpdate ?P ?pull (snd (findOneAndUpdate ?P ?push (Users s)))) =
      snd (findOneAndUpdate ?P ?pull (Users s))"
    by (simp only: pull_after_push)
  have general: "after (deleteFavoriteMovie fault2 True username m
                  (after (addFavoriteMovie fault1 True username m s))) =
           s\<lparr>Users := snd (findOneAndUpdate ?P ?pull (Users s))\<rparr>"
    by (simp add: pushed pulled both)
  have restored: "s\<lparr>Users := snd (findOneAndUpdate ?P ?pull (Users s))\<rparr> = s"
    if fresh: "\<forall>u. find ?P (Users s) = Some u \<longrightarrow> m \<notin> set (FavoriteMovies u)"
  proof -
    have "snd (findOneAndUpdate ?P ?pull (Users s)) = Users s"
    proof (rule findOneAndUpdate_same)
      fix x assume "find ?P (Users s) = Some x"
      with fresh have "m \<notin> set (FavoriteMovies x)" by blast
      then show "?pull x = x" by (rule pull_absent)
    qed
    then show ?thesis by simp
  qed
  from general restored show ?thesis by simp
qed

text \<open>C1 at a user with the favorite m1, for the movie id m2.\<close>

theorem push_then_pull_favorite_witness:
  "no_fault (Users_findOneAndUpdate ''alice'' (Push_favorite ''m2'')) = None \<and>
   no_fault (Users_findOneAndUpdate ''alice'' (Pull_favorite ''m2'')) = None \<and>
   find (\<lambda>u. Username u = Some ''alice'')
     [\<lparr>Username = Some ''alice'', Password = Some ''h'', Email = Some ''a@b.com'',
       Birthday = None, FavoriteMovies = [''m1'']\<rparr>] =
     Some \<lparr>Username = Some ''alice'', Password = Some ''h'', Email = Some ''a@b.com'',
       Birthday = None, FavoriteMovies = [''m1'']\<rparr> \<and>
   ''m2'' \<notin> set [''m1''] \<and>
   after (deleteFavoriteMovie no_fault True ''alice'' ''m2''
     (after (addFavoriteMovie no_fault True ''alice'' ''m2''
       \<lparr>Users = [\<lparr>Username = Some ''alice'', Password = Some ''h'', Email = Some ''a@b.com'',
                   Birthday = None, FavoriteMovies = [''m1'']\<rparr>], Movies = []\<rparr>))) =
     \<lparr>Users = [\<lparr>Username = Some ''alice'', Password = Some ''h'', Email = Some ''a@b.com'',
                 Birthday = None, FavoriteMovies = [''m1'']\<rparr>], Movies = []\<rparr>"
  using push_then_pull_favorite [of no_fault "''alice''" "''m2''" no_fault
      "\<lparr>Users = [\<lparr>Username = Some ''alice'', Password = Some ''h'', Email = Some ''a@b.com'',
                   Birthday = None, FavoriteMovies = [''m1'']\<rparr>], Movies = []\<rparr>"]
  by (simp add: no_fault_def)

text \<open>
  C9: when no user has the Username, adding a favorite and removing one, past the token
  gate and with an update that runs, are both answered with 200 and the body null, and
  the store is unchanged.
\<close>

theorem favorites_of_absent_user:
  assumes absent: "find (\<lambda>u. Username u = Some username) (Users s) = None"
    and push_ran: "fault (Users_findOneAndUpdate username (Push_favorite m)) = None"
    and pull_ran: "fault (Users_findOneAndUpdate username (Pull_favorite m)) = None"
  shows "reply (addFavoriteMovie fault True username m s) =
           \<lparr>status = 200, content = Json_user None\<rparr> \<and>
         after (addFavoriteMovie fault True username m s) = s \<and>
         reply (deleteFavoriteMovie fault True username m s) =
           \<lparr>status = 200, content = Json_user None\<rparr> \<and>
         after (deleteFavoriteMovie fault True username m s) = s"
  using assms
  by (simp add: addFavoriteMovie_def deleteFavoriteMovie_def passport_authenticate_def
      respond_def findOneAndUpdate_miss)

text \<open>C9 at a store with alice only, for the Username carol.\<close>

theorem favorites_of_absent_user_witness:
  "find (\<lambda>u. Username u = Some ''carol'')
     (Users \<lparr>Users = [\<lparr>Username = Some ''alice'', Password = Some ''h'',
        Email = Some ''a@b.com'', Birthday = None, FavoriteMovies = [''m1'']\<rparr>],
        Movies = []\<rparr>) = None \<and>
   no_fault (Users_findOneAndUpdate ''carol'' (Push_favorite ''m1'')) = None \<and>
   no_fault (Users_findOneAndUpdate ''carol'' (Pull_favorite ''m1'')) = None \<and>
   reply (addFavoriteMovie no_fault True ''carol'' ''m1''
     \<lparr>Users = [\<lparr>Username = Some ''alice'', Password = Some ''h'',
        Email = Some ''a@b.com'', Birthday = None, FavoriteMovies = [''m1'']\<rparr>],
        Movies = []\<rparr>) = \<lparr>status = 200, content = Json_user None\<rparr> \<and>
   reply (deleteFavoriteMovie no_fault True ''carol'' ''m1''
     \<lparr>Users = [\<lparr>Username = Some ''alice'', Password = Some ''h'',
        Email = Some ''a@b.com'', Birthday = None, FavoriteMovies = [''m1'']\<rparr>],
        Movies = []\<rparr>) = \<lparr>status = 200, content = Json_user None\<rparr>"
  using favorites_of_absent_user [of "''carol''"
      "\<lparr>Users = [\<lparr>Username = Some ''alice'', Password = Some ''h'',
        Email = Some ''a@b.com'', Birthday = None, FavoriteMovies = [''m1'']\<rparr>],
        Movies = []\<rparr>" no_fault "''m1''"]
  by (simp add: no_fault_def)

section \<open>Deleting a user\<close>

text \<open>
  C5: \<^verbatim>\<open>DELETE /users/:Username\<close>, past the token gate and with a
  \<^verbatim>\<open>findOneAndRemove\<close> that runs. When no user has the Username the answer is 400 with
  the message that it was not found, and the store is unchanged. When one has, the
  answer is 200 with the message that it was deleted, and the first user of that name is
  removed from the collection.
\<close>

theorem delete_user_found_or_not:
  assumes ran: "fault (Users_findOneAndRemove username) = None"
  shows "(find (\<lambda>x. Username x = Some username) (Users s) = None \<longrightarrow>
            reply (deleteUser fault True username s) =
              \<lparr>status = 400, content = Send (username @ '' was not found.'')\<rparr> \<and>
            after (deleteUser fault True username s) = s) \<and>
         (\<forall>u. find (\<lambda>x. Username x = Some username) (Users s) = Some u \<longrightarrow>
            reply (deleteUser fault True username s) =
              \<lparr>status = 200, content = Send (username @ '' was deleted.'')\<rparr> \<and>
            after (deleteUser fault True username s) = s\<lparr>Users := remove1 u (Users s)\<rparr>)"
  using ran
  by (simp add: deleteUser_def passport_authenticate_def respond_def
      findOneAndRemove_miss findOneAndRemove_hit)

text \<open>C5 at a store with alice only, for carol and for alice.\<close>

theorem delete_user_found_or_not_witness:
  "no_fault (Users_findOneAndRemove ''alice'') = None \<and>
   no_fault (Users_findOneAndRemove ''carol'') = None \<and>
   find (\<lambda>x. Username x = Some ''carol'')
     (Users \<lparr>Users = [\<lparr>Username = Some ''alice'', Password = Some ''h'',
        Email = Some ''a@b.com'', Birthday = None, FavoriteMovies = []\<rparr>], Movies = []\<rparr>) = None \<and>
   reply (deleteUser no_fault True ''carol''
     \<lparr>Users = [\<lparr>Username = Some ''alice'', Password = Some ''h'',
        Email = Some ''a@b.com'', Birthday = None, FavoriteMovies = []\<rparr>], Movies = []\<rparr>) =
     \<lparr>status = 400, content = Send ''carol was not found.''\<rparr> \<and>
   find (\<lambda>x. Username x = Some ''alice'')
     (Users \<lparr>Users = [\<lparr>Username = Some ''alice'', Password = Some ''h'',
        Email = Some ''a@b.com'', Birthday = None, FavoriteMovies = []\<rparr>], Movies = []\<rparr>) =
     Some \<lparr>Username = Some ''alice'', Password = Some ''h'',
        Email = Some ''a@b.com'', Birthday = None, FavoriteMovies = []\<rparr> \<and>
   reply (deleteUser no_fault True ''alice''
     \<lparr>Users = [\<lparr>Username = Some ''alice'', Password = Some ''h'',
        Email = Some ''a@b.com'', Birthday = None, FavoriteMovies = []\<rparr>], Movies = []\<rparr>) =
     \<lparr>status = 200, content = Send ''alice was deleted.''\<rparr> \<and>
   after (deleteUser no_fault True ''alice''
     \<lparr>Users = [\<lparr>Username = Some ''alice'', Password = Some ''h'',
        Email = Some ''a@b.com'', Birthday = None, FavoriteMovies = []\<rparr>], Movies = []\<rparr>) =
     \<lparr>Users = [], Movies = []\<rparr>"
  using delete_user_found_or_not [of no_fault "''carol''"
      "\<lparr>Users = [\<lparr>Username = Some ''alice'', Password = Some ''h'',
        Email = Some ''a@b.com'', Birthday = None, FavoriteMovies = []\<rparr>], Movies = []\<rparr>"]
    delete_user_found_or_not [of no_fault "''alice''"
      "\<lparr>Users = [\<lparr>Username = Some ''alice'', Password = Some ''h'',
        Email = Some ''a@b.com'', Birthday = None, FavoriteMovies = []\<rparr>], Movies = []\<rparr>"]
  by (simp add: no_fault_def)

section \<open>The CORS check\<close>

text \<open>
  C8, as stated: the check accepts a request whose Origin header is absent or whose
  origin is in the allow-list, and rejects every other origin. The empty origin is
  neither absent nor in the list, and the check accepts it.
\<close>

theorem cors_empty_origin_counterexample:
  "Some [] \<noteq> (None :: string option) \<and> [] \<notin> set allowedOrigins \<and>
   cors_origin (Some []) = Inr True"
  by (simp add: cors_origin_def allowedOrigins_def)

text \<open>
  C8, amended: the check accepts a request whose Origin header is absent or empty or
  whose origin is in the allow-list, and rejects every other origin with the error that
  names the origin.
\<close>

theorem cors_decision:
  "(origin = None \<or> origin = Some [] \<or> origin \<in> Some ` set allowedOrigins \<longrightarrow>
      cors_origin origin = Inr True) \<and>
   (\<forall>orig. origin = Some orig \<and> orig \<noteq> [] \<and> orig \<notin> set allowedOrigins \<longrightarrow>
      cors_origin origin =
        Inl (Thrown (''The CORS policy for this application doesn'' @ rsquo @
                     ''t allow access from origin '' @ orig)))"
  by (auto simp: cors_origin_def)

text \<open>C8 at an origin of the allow-list and at one outside it.\<close>

theorem cors_decision_witness:
  "Some ''https://andrew0t.github.io'' \<in> Some ` set allowedOrigins \<and>
   cors_origin (Some ''https://andrew0t.github.io'') = Inr True \<and>
   ''http://example.org'' \<noteq> [] \<and> ''http://example.org'' \<notin> set allowedOrigins \<and>
   cors_origin (Some ''http://example.org'') =
     Inl (Thrown (''The CORS policy for this application doesn'' @ rsquo @
                  ''t allow access from origin http://example.org''))"
  using cors_decision [of "Some ''https://andrew0t.github.io''"]
    cors_decision [of "Some ''http://example.org''"]
  by (simp add: allowedOrigins_def)

end
